theory Spec2Isabelle
  imports Complex_Main
begin

section \<open>Numeric helpers\<close>

text \<open>
  The strategies are Python/NumPy code over float64. Floats are idealised as \<^typ>\<open>real\<close>;
  a NumPy division by zero (which yields \<open>inf\<close>, \<open>-inf\<close> or \<open>nan\<close> with a
  warning, never an exception) is kept apart as \<open>npfloat\<close>, with NumPy's comparison
  rules: every comparison with \<open>nan\<close> is false.
\<close>

datatype npfloat = Fin real | PInf | NInf | NaN

definition np_div :: "real \<Rightarrow> real \<Rightarrow> npfloat" where
  "np_div a b =
     (if b \<noteq> 0 then Fin (a / b)
      else if 0 < a then PInf else if a < 0 then NInf else NaN)"

text \<open>\<open>k * x\<close> for a float constant \<open>k\<close>.\<close>

definition np_scale :: "real \<Rightarrow> npfloat \<Rightarrow> npfloat" where
  "np_scale k x =
     (case x of
        Fin v \<Rightarrow> Fin (k * v)
      | NaN \<Rightarrow> NaN
      | PInf \<Rightarrow> (if 0 < k then PInf else if k < 0 then NInf else NaN)
      | NInf \<Rightarrow> (if 0 < k then NInf else if k < 0 then PInf else NaN))"

text \<open>\<open>x - r\<close> for a finite \<open>r\<close>.\<close>

definition np_sub :: "npfloat \<Rightarrow> real \<Rightarrow> npfloat" where
  "np_sub x r = (case x of Fin v \<Rightarrow> Fin (v - r) | PInf \<Rightarrow> PInf | NInf \<Rightarrow> NInf | NaN \<Rightarrow> NaN)"

definition np_lt :: "npfloat \<Rightarrow> real \<Rightarrow> bool" where
  "np_lt x r = (case x of Fin v \<Rightarrow> v < r | NInf \<Rightarrow> True | PInf \<Rightarrow> False | NaN \<Rightarrow> False)"

definition np_gt :: "npfloat \<Rightarrow> real \<Rightarrow> bool" where
  "np_gt x r = (case x of Fin v \<Rightarrow> r < v | PInf \<Rightarrow> True | NInf \<Rightarrow> False | NaN \<Rightarrow> False)"

definition np_le :: "npfloat \<Rightarrow> real \<Rightarrow> bool" where
  "np_le x r = (case x of Fin v \<Rightarrow> v \<le> r | NInf \<Rightarrow> True | PInf \<Rightarrow> False | NaN \<Rightarrow> False)"

definition np_ge :: "npfloat \<Rightarrow> real \<Rightarrow> bool" where
  "np_ge x r = (case x of Fin v \<Rightarrow> r \<le> v | PInf \<Rightarrow> True | NInf \<Rightarrow> False | NaN \<Rightarrow> False)"

text \<open>\<open>np.mean\<close>, \<open>np.median\<close> and \<open>np.std\<close> (population standard deviation) of a
  non-empty array; every call site below guards the empty case itself.\<close>

definition mean :: "real list \<Rightarrow> real" where
  "mean xs = sum_list xs / real (length xs)"

definition median :: "real list \<Rightarrow> real" where
  "median xs =
     (let s = sort xs; n = length s
      in if odd n then s ! (n div 2) else (s ! (n div 2 - 1) + s ! (n div 2)) / 2)"

definition std :: "real list \<Rightarrow> real" where
  "std xs = sqrt (mean (map (\<lambda>x. (x - mean xs)\<^sup>2) xs))"

text \<open>Python's \<open>xs[i:]\<close> for any integer \<open>i\<close> (a negative \<open>i\<close> counts from the end).\<close>

definition slice_from :: "int \<Rightarrow> 'a list \<Rightarrow> 'a list" where
  "slice_from i xs =
     (if 0 \<le> i then drop (nat i) xs else drop (length xs - nat (- i)) xs)"

text \<open>\<open>np.diff\<close>.\<close>

definition diff :: "real list \<Rightarrow> real list" where
  "diff xs = map2 (\<lambda>b a. b - a) (tl xs) xs"

section \<open>Data model\<close>

datatype action = SELL | HOLD

text \<open>
  A decision is the dict \<open>{'action', 'amount', 'reason'}\<close>. The reason is an f-string in
  the source; it is kept as its template together with the interpolated values, in order.
  \<open>info\<close> holds the extra numeric entries that only the MPC strategy adds.
\<close>

type_synonym reason = "string \<times> npfloat list"

record decision =
  action :: action
  amount :: real
  reason :: reason
  info :: "(string \<times> real) list"

definition mk_decision :: "action \<Rightarrow> real \<Rightarrow> reason \<Rightarrow> decision" where
  "mk_decision a x r = \<lparr>action = a, amount = x, reason = r, info = []\<rparr>"

text \<open>\<open>price_history\<close> is a DataFrame with a \<open>price\<close> column and, optionally, \<open>high\<close>
  and \<open>low\<close> columns of the same length.\<close>

record price_history =
  price :: "real list"
  high_low :: "(real list \<times> real list) option"

text \<open>
  \<open>predictions\<close> is a NumPy array: a matrix with one row per forecast path and one column
  per horizon day, or (MPC only) a one-dimensional single path. \<open>None\<close> is \<open>None\<close>.
\<close>

type_synonym matrix = "real list list"

datatype predictions = Matrix matrix | Vector "real list"

definition ncols :: "matrix \<Rightarrow> nat" where
  "ncols m = (case m of [] \<Rightarrow> 0 | r # _ \<Rightarrow> length r)"

definition msize :: "matrix \<Rightarrow> nat" where
  "msize m = length m * ncols m"

definition column :: "matrix \<Rightarrow> nat \<Rightarrow> real list" where
  "column m j = map (\<lambda>r. r ! j) m"

datatype error = IndexError

section \<open>Strategy base class\<close>

text \<open>\<open>Strategy._force_liquidation_check\<close>: \<open>None\<close> is \<open>None\<close>.\<close>

definition force_liquidation_check :: "int \<Rightarrow> int \<Rightarrow> real \<Rightarrow> decision option" where
  "force_liquidation_check max_holding_days day inventory =
     (if day \<ge> max_holding_days
      then Some (mk_decision SELL inventory (''force_liquidation_max_days'', []))
      else None)"

text \<open>
  Modelled from the spec: the body of \<open>Strategy._execute_trade\<close> is not listed. Every
  call is rendered in the strategy overview as \<open>return SELL amount=inventory*batch_size\<close>;
  that a sale records its day as \<open>last_sale_day\<close> (so that \<open>days_since_last_sale\<close>
  restarts at 0) is taken from the spec and from \<open>EqualBatchStrategy.decide\<close>, which
  does so itself.
\<close>

record sale_state =
  last_sale_day :: int

definition execute_trade ::
  "int \<Rightarrow> real \<Rightarrow> real \<Rightarrow> reason \<Rightarrow> sale_state \<Rightarrow> decision \<times> sale_state" where
  "execute_trade day inventory batch_size r st =
     (mk_decision SELL (inventory * batch_size) r, st\<lparr>last_sale_day := day\<rparr>)"

text \<open>The overview's pseudo-code writes \<open>return HOLD\<close> without a reason.\<close>

definition unlisted :: reason where
  "unlisted = ([], [])"

section \<open>Technical indicators\<close>

text \<open>\<open>calculate_rsi\<close>. With \<open>period \<le> 0\<close> the window can hold no price change and
  the means are \<open>nan\<close>, hence the result type.\<close>

definition calculate_rsi :: "real list \<Rightarrow> int \<Rightarrow> npfloat" where
  "calculate_rsi prices period =
     (if int (length prices) < period + 1 then Fin 50
      else
        let deltas = diff (slice_from (- period - 1) prices);
            gains = map (\<lambda>d. if d > 0 then d else 0) deltas;
            losses = map (\<lambda>d. if d < 0 then - d else 0) deltas
        in if deltas = [] then NaN
           else
             let avg_gain = mean gains;
                 avg_loss = mean losses
             in if avg_loss = 0 then Fin 100
                else
                  let rs = avg_gain / avg_loss
                  in Fin (100 - (100 / (1 + rs))))"

text \<open>\<open>calculate_adx\<close>, returning \<open>(adx, plus_di, minus_di)\<close>. An empty window makes
  \<open>atr\<close> a \<open>nan\<close>, for which \<open>atr > 0\<close> is false.\<close>

definition calculate_adx :: "price_history \<Rightarrow> int \<Rightarrow> real \<times> real \<times> real" where
  "calculate_adx ph period =
     (if int (length (price ph)) < period + 1 then (20, 0, 0)
      else
        let (high, low) = (case high_low ph of
                             Some (h, l) \<Rightarrow> (h, l)
                           | None \<Rightarrow> (price ph, price ph));
            close = price ph;
            tr = map (\<lambda>(h, l, c). max (h - l) (max \<bar>h - c\<bar> \<bar>l - c\<bar>))
                   (zip (tl high) (zip (tl low) (butlast close)));
            plus_dm = map (\<lambda>((h1, h0), (l1, l0)).
                             if (h1 - h0) > (l0 - l1) then max (h1 - h0) 0 else 0)
                        (zip (zip (tl high) (butlast high)) (zip (tl low) (butlast low)));
            minus_dm = map (\<lambda>((h1, h0), (l1, l0)).
                              if (l0 - l1) > (h1 - h0) then max (l0 - l1) 0 else 0)
                         (zip (zip (tl high) (butlast high)) (zip (tl low) (butlast low)));
            tr_w = slice_from (- period) tr;
            (plus_di, minus_di) =
              (if tr_w \<noteq> [] \<and> mean tr_w > 0
               then (100 * mean (slice_from (- period) plus_dm) / mean tr_w,
                     100 * mean (slice_from (- period) minus_dm) / mean tr_w)
               else (0, 0));
            di_sum = plus_di + minus_di;
            adx = (if di_sum > 0 then 100 * \<bar>plus_di - minus_di\<bar> / di_sum else 0)
        in (adx, plus_di, minus_di))"

text \<open>\<open>calculate_prediction_confidence\<close>.\<close>

definition calculate_prediction_confidence :: "matrix option \<Rightarrow> nat \<Rightarrow> real" where
  "calculate_prediction_confidence predictions horizon_day =
     (case predictions of
        None \<Rightarrow> 1
      | Some m \<Rightarrow>
          if msize m = 0 then 1
          else
            let horizon_day = (if horizon_day \<ge> ncols m then ncols m - 1 else horizon_day);
                day_predictions = column m horizon_day;
                median_pred = median day_predictions;
                std_dev = std day_predictions
            in if median_pred > 0 then std_dev / median_pred else 1)"

section \<open>Baseline strategies\<close>

subsection \<open>ImmediateSaleStrategy\<close>

record immediate_params =
  is_max_holding_days :: int
  min_batch_size :: real
  sale_frequency_days :: int

definition immediate_defaults :: immediate_params where
  "immediate_defaults = \<lparr>is_max_holding_days = 365, min_batch_size = 5.0,
     sale_frequency_days = 7\<rparr>"

record immediate_state =
  days_since_last_sale :: int

definition ImmediateSaleStrategy_decide ::
  "immediate_params \<Rightarrow> immediate_state \<Rightarrow> int \<Rightarrow> real \<Rightarrow> real \<Rightarrow> price_history
     \<Rightarrow> decision \<times> immediate_state" where
  "ImmediateSaleStrategy_decide p st day inventory current_price ph =
     (if inventory \<le> 0 then (mk_decision HOLD 0 (''no_inventory'', []), st)
      else case force_liquidation_check (is_max_holding_days p) day inventory of
        Some forced \<Rightarrow> (forced, st)
      | None \<Rightarrow>
          let ready_to_sell = (days_since_last_sale st \<ge> sale_frequency_days p);
              enough_inventory = (inventory \<ge> min_batch_size p)
          in if ready_to_sell \<and> enough_inventory
             then (mk_decision SELL inventory (''immediate_weekly_sale_{}t'', [Fin inventory]),
                   st\<lparr>days_since_last_sale := 0\<rparr>)
             else
               let st' = st\<lparr>days_since_last_sale := days_since_last_sale st + 1\<rparr>
               in if \<not> enough_inventory
                  then (mk_decision HOLD 0
                          (''accumulating_need_{}t'', [Fin (min_batch_size p)]), st')
                  else (mk_decision HOLD 0
                          (''waiting_for_sale_day_{}'',
                           [Fin (real_of_int (days_since_last_sale st'))]), st'))"

subsection \<open>EqualBatchStrategy\<close>

record equal_batch_params =
  eb_max_holding_days :: int
  eb_batch_size :: real
  eb_frequency :: int

definition equal_batch_defaults :: equal_batch_params where
  "equal_batch_defaults = \<lparr>eb_max_holding_days = 365, eb_batch_size = 0.25,
     eb_frequency = 30\<rparr>"

definition EqualBatchStrategy_decide ::
  "equal_batch_params \<Rightarrow> sale_state \<Rightarrow> int \<Rightarrow> real \<Rightarrow> real \<Rightarrow> price_history
     \<Rightarrow> decision \<times> sale_state" where
  "EqualBatchStrategy_decide p st day inventory current_price ph =
     (if inventory \<le> 0 then (mk_decision HOLD 0 (''no_inventory'', []), st)
      else case force_liquidation_check (eb_max_holding_days p) day inventory of
        Some forced \<Rightarrow> (forced, st)
      | None \<Rightarrow>
          let days_since_sale = day - last_sale_day st
          in if days_since_sale \<ge> eb_frequency p
             then (mk_decision SELL (inventory * eb_batch_size p) (''scheduled_batch'', []),
                   st\<lparr>last_sale_day := day\<rparr>)
             else (mk_decision HOLD 0 (''waiting_for_schedule'', []), st))"

subsection \<open>PriceThresholdStrategy\<close>

record pt_params =
  pt_max_holding_days :: int
  threshold_pct :: real
  pt_batch_baseline :: real
  pt_batch_overbought_strong :: real
  pt_batch_overbought :: real
  batch_strong_trend :: real
  pt_rsi_overbought :: real
  rsi_moderate :: real
  pt_adx_strong :: real
  pt_cooldown_days :: int
  pt_max_days_without_sale :: int

definition pt_defaults :: pt_params where
  "pt_defaults = \<lparr>pt_max_holding_days = 365, threshold_pct = 0.05, pt_batch_baseline = 0.25,
     pt_batch_overbought_strong = 0.35, pt_batch_overbought = 0.30, batch_strong_trend = 0.20,
     pt_rsi_overbought = 70, rsi_moderate = 65, pt_adx_strong = 25, pt_cooldown_days = 7,
     pt_max_days_without_sale = 60\<rparr>"

text \<open>\<open>PriceThresholdStrategy._analyze_historical\<close>.\<close>

definition pt_analyze_historical :: "pt_params \<Rightarrow> real \<Rightarrow> price_history \<Rightarrow> real \<times> reason" where
  "pt_analyze_historical p current_price ph =
     (let prices = price ph;
          rsi = calculate_rsi prices 14;
          adx = fst (calculate_adx ph 14)
      in if np_gt rsi (pt_rsi_overbought p) \<and> adx > pt_adx_strong p
         then (pt_batch_overbought_strong p,
               (''overbought_strong_trend_rsi{}_adx{}'', [rsi, Fin adx]))
         else if np_gt rsi (pt_rsi_overbought p)
         then (pt_batch_overbought p, (''overbought_rsi{}'', [rsi]))
         else if adx > pt_adx_strong p \<and> np_lt rsi (rsi_moderate p)
         then (batch_strong_trend p, (''strong_trend_rsi{}_adx{}'', [rsi, Fin adx]))
         else (pt_batch_baseline p, (''baseline_rsi{}_adx{}'', [rsi, Fin adx])))"

text \<open>The threshold both \<open>PriceThresholdStrategy.decide\<close> and
  \<open>PriceThresholdPredictive._execute_baseline_logic\<close> compute; \<open>tail(30)\<close> is the last
  30 rows.\<close>

definition pt_threshold :: "pt_params \<Rightarrow> real \<Rightarrow> price_history \<Rightarrow> real" where
  "pt_threshold p current_price ph =
     (if length (price ph) \<ge> 30
      then mean (slice_from (- 30) (price ph)) * (1 + threshold_pct p)
      else current_price * (1 + threshold_pct p))"

definition PriceThresholdStrategy_decide ::
  "pt_params \<Rightarrow> sale_state \<Rightarrow> int \<Rightarrow> real \<Rightarrow> real \<Rightarrow> price_history
     \<Rightarrow> decision \<times> sale_state" where
  "PriceThresholdStrategy_decide p st day inventory current_price ph =
     (if inventory \<le> 0 then (mk_decision HOLD 0 (''no_inventory'', []), st)
      else case force_liquidation_check (pt_max_holding_days p) day inventory of
        Some forced \<Rightarrow> (forced, st)
      | None \<Rightarrow>
          let days_since_sale = day - last_sale_day st;
              threshold = pt_threshold p current_price ph;
              signal_triggered = (current_price > threshold);
              can_trade = (days_since_sale \<ge> pt_cooldown_days p)
          in if \<not> signal_triggered
             then (if days_since_sale \<ge> pt_max_days_without_sale p
                   then execute_trade day inventory (pt_batch_baseline p)
                          (''fallback_{}d'', [Fin (real_of_int days_since_sale)]) st
                   else (mk_decision HOLD 0
                           (''below_threshold_{}<{}'', [Fin current_price, Fin threshold]), st))
             else if \<not> can_trade
             then (mk_decision HOLD 0
                     (''cooldown_{}d'',
                      [Fin (real_of_int (pt_cooldown_days p - days_since_sale))]), st)
             else
               let (batch_size, r) = pt_analyze_historical p current_price ph
               in execute_trade day inventory batch_size r st)"

subsection \<open>MovingAverageStrategy\<close>

record ma_params =
  ma_max_holding_days :: int
  ma_period :: nat
  ma_batch_baseline :: real
  batch_strong_momentum :: real
  ma_batch_overbought_strong :: real
  ma_batch_overbought :: real
  ma_rsi_overbought :: real
  rsi_min :: real
  ma_adx_strong :: real
  adx_weak :: real
  ma_cooldown_days :: int
  ma_max_days_without_sale :: int

definition ma_defaults :: ma_params where
  "ma_defaults = \<lparr>ma_max_holding_days = 365, ma_period = 30, ma_batch_baseline = 0.25,
     batch_strong_momentum = 0.20, ma_batch_overbought_strong = 0.35,
     ma_batch_overbought = 0.30, ma_rsi_overbought = 70, rsi_min = 45, ma_adx_strong = 25,
     adx_weak = 20, ma_cooldown_days = 7, ma_max_days_without_sale = 60\<rparr>"

text \<open>\<open>MovingAverageStrategy._analyze_historical\<close>.\<close>

definition ma_analyze_historical :: "ma_params \<Rightarrow> real \<Rightarrow> price_history \<Rightarrow> real \<times> reason" where
  "ma_analyze_historical p current_price ph =
     (let prices = price ph;
          rsi = calculate_rsi prices 14;
          adx = fst (calculate_adx ph 14)
      in if adx > ma_adx_strong p \<and> np_ge rsi (rsi_min p) \<and> np_le rsi (ma_rsi_overbought p)
         then (batch_strong_momentum p, (''strong_momentum_rsi{}_adx{}'', [rsi, Fin adx]))
         else if np_gt rsi (ma_rsi_overbought p) \<and> adx > ma_adx_strong p
         then (ma_batch_overbought_strong p,
               (''overbought_strong_rsi{}_adx{}'', [rsi, Fin adx]))
         else if np_gt rsi (ma_rsi_overbought p)
         then (ma_batch_overbought p, (''overbought_rsi{}'', [rsi]))
         else (ma_batch_baseline p, (''baseline_rsi{}_adx{}'', [rsi, Fin adx])))"

text \<open>
  The crossover part of \<open>MovingAverageStrategy.decide\<close> (from \<open>recent_prices\<close> on), as
  listed: the window bounds 30 and 31 are literals there. \<open>recent_prices[-2]\<close> raises
  IndexError on fewer than two rows.
\<close>

definition ma_crossover ::
  "ma_params \<Rightarrow> sale_state \<Rightarrow> int \<Rightarrow> real \<Rightarrow> real \<Rightarrow> price_history
     \<Rightarrow> error + (decision \<times> sale_state)" where
  "ma_crossover p st day inventory current_price ph =
     (let days_since_sale = day - last_sale_day st;
          can_trade = (days_since_sale \<ge> ma_cooldown_days p);
          recent_prices = slice_from (- (int (ma_period p) + 1)) (price ph)
      in if length recent_prices < 2 then Inl IndexError
         else
           let ma_current = mean (slice_from (- 30) recent_prices);
               ma_prev = mean (butlast (slice_from (- 31) recent_prices));
               prev_price = recent_prices ! (length recent_prices - 2);
               upward_cross = (prev_price \<le> ma_prev \<and> current_price > ma_current);
               downward_cross = (prev_price \<ge> ma_prev \<and> current_price < ma_current)
           in if upward_cross
              then Inr (mk_decision HOLD 0 (''upward_crossover_bullish'', []), st)
              else if downward_cross
              then (if \<not> can_trade
                    then Inr (mk_decision HOLD 0
                                (''cooldown_{}d'',
                                 [Fin (real_of_int (ma_cooldown_days p - days_since_sale))]),
                              st)
                    else
                      let (batch_size, r) = ma_analyze_historical p current_price ph
                      in Inr (execute_trade day inventory batch_size r st))
              else Inr (mk_decision HOLD 0 (''no_crossover'', []), st))"

text \<open>
  The body of \<open>MovingAverageStrategy.decide\<close> as the strategy overview lists it (fallback,
  history check, crossover).
\<close>

definition ma_decide_body ::
  "ma_params \<Rightarrow> sale_state \<Rightarrow> int \<Rightarrow> real \<Rightarrow> real \<Rightarrow> price_history
     \<Rightarrow> error + (decision \<times> sale_state)" where
  "ma_decide_body p st day inventory current_price ph =
     (let days_since_sale = day - last_sale_day st
      in if days_since_sale \<ge> ma_max_days_without_sale p
         then Inr (execute_trade day inventory (ma_batch_baseline p)
                     (''fallback_{}d'', [Fin (real_of_int days_since_sale)]) st)
         else if length (price ph) < ma_period p + 1
         then Inr (mk_decision HOLD 0 unlisted, st)
         else ma_crossover p st day inventory current_price ph)"

text \<open>
  Modelled from the spec: the first lines of \<open>MovingAverageStrategy.decide\<close> are not
  listed (the listing starts at the fallback). The guide states that all strategies check
  for empty inventory and for forced liquidation first, as the three listed baselines do;
  the same two checks are put in front here.
\<close>

definition MovingAverageStrategy_decide ::
  "ma_params \<Rightarrow> sale_state \<Rightarrow> int \<Rightarrow> real \<Rightarrow> real \<Rightarrow> price_history
     \<Rightarrow> error + (decision \<times> sale_state)" where
  "MovingAverageStrategy_decide p st day inventory current_price ph =
     (if inventory \<le> 0 then Inr (mk_decision HOLD 0 (''no_inventory'', []), st)
      else case force_liquidation_check (ma_max_holding_days p) day inventory of
        Some forced \<Rightarrow> Inr (forced, st)
      | None \<Rightarrow> ma_decide_body p st day inventory current_price ph)"

section \<open>Prediction-based strategies\<close>

subsection \<open>The three-tier overlay shared by the matched pairs\<close>

record pred_params =
  storage_cost_pct_per_day :: real
  transaction_cost_pct :: real
  high_confidence_cv :: real
  medium_confidence_cv :: real
  strong_positive_threshold :: real
  strong_negative_threshold :: real
  moderate_threshold :: real
  batch_pred_hold :: real
  batch_pred_aggressive :: real
  batch_pred_cautious :: real

definition pred_defaults :: pred_params where
  "pred_defaults = \<lparr>storage_cost_pct_per_day = 0.005, transaction_cost_pct = 0.01,
     high_confidence_cv = 0.05, medium_confidence_cv = 0.15, strong_positive_threshold = 2.0,
     strong_negative_threshold = - 1.0, moderate_threshold = 0.5, batch_pred_hold = 0.0,
     batch_pred_aggressive = 0.40, batch_pred_cautious = 0.15\<rparr>"

datatype confidence = HIGH | MEDIUM | LOW

datatype direction =
  STRONG_UPWARD | MODERATE_UPWARD | STRONG_DOWNWARD | MODERATE_DOWNWARD | NEUTRAL

record pred_signal =
  confidence :: confidence
  direction :: direction
  net_benefit_pct :: npfloat
  cv :: npfloat

text \<open>Python's \<open>max\<close> of a non-empty list.\<close>

definition maximum :: "real list \<Rightarrow> real" where
  "maximum xs = fold max (tl xs) (hd xs)"

text \<open>The expected value of selling on horizon day \<open>d\<close> (0-based), as both
  \<open>_calculate_net_benefit_pct\<close> and \<open>_find_optimal_sale_day_pct\<close> compute it.\<close>

definition ev_of_day :: "real \<Rightarrow> real \<Rightarrow> real \<Rightarrow> matrix \<Rightarrow> nat \<Rightarrow> real" where
  "ev_of_day storage_pct transaction_pct current_price m d =
     (let future_price = median (column m d);
          days_to_wait = real d + 1;
          storage_cost = current_price * (storage_pct / 100) * days_to_wait;
          transaction_cost = future_price * (transaction_pct / 100)
      in future_price - storage_cost - transaction_cost)"

text \<open>\<open>_calculate_net_benefit_pct\<close>: \<open>predictions[:, day]\<close> for \<open>day\<close> in \<open>range(14)\<close>
  raises IndexError on a matrix with fewer than 14 columns.\<close>

definition calculate_net_benefit_pct :: "pred_params \<Rightarrow> real \<Rightarrow> matrix \<Rightarrow> error + npfloat" where
  "calculate_net_benefit_pct pp current_price m =
     (if ncols m < 14 then Inl IndexError
      else
        let ev_by_day = map (ev_of_day (storage_cost_pct_per_day pp) (transaction_cost_pct pp)
                               current_price m) [0..<14];
            transaction_cost_today = current_price * (transaction_cost_pct pp / 100);
            ev_today = current_price - transaction_cost_today;
            optimal_ev = maximum ev_by_day
        in Inr (np_div (100 * (optimal_ev - ev_today)) current_price))"

text \<open>\<open>_analyze_prediction_signal\<close>.\<close>

definition analyze_prediction_signal ::
  "pred_params \<Rightarrow> real \<Rightarrow> price_history \<Rightarrow> matrix \<Rightarrow> error + pred_signal" where
  "analyze_prediction_signal pp current_price ph m =
     (case calculate_net_benefit_pct pp current_price m of
        Inl e \<Rightarrow> Inl e
      | Inr nb \<Rightarrow>
          let day_14_predictions = column m 13;
              med = median day_14_predictions;
              std_dev = std day_14_predictions;
              cv = np_div std_dev med;
              confidence =
                (if np_lt cv (high_confidence_cv pp) then HIGH
                 else if np_lt cv (medium_confidence_cv pp) then MEDIUM
                 else LOW);
              direction =
                (if np_gt nb (strong_positive_threshold pp) then STRONG_UPWARD
                 else if np_gt nb (moderate_threshold pp) then MODERATE_UPWARD
                 else if np_lt nb (strong_negative_threshold pp) then STRONG_DOWNWARD
                 else if np_lt nb (- moderate_threshold pp) then MODERATE_DOWNWARD
                 else NEUTRAL)
          in Inr \<lparr>confidence = confidence, direction = direction,
                   net_benefit_pct = nb, cv = cv\<rparr>)"

text \<open>\<open>_execute_prediction_override\<close>; \<open>batch_baseline\<close> is the baseline's attribute.\<close>

definition execute_prediction_override ::
  "pred_params \<Rightarrow> real \<Rightarrow> int \<Rightarrow> real \<Rightarrow> pred_signal \<Rightarrow> price_history \<Rightarrow> sale_state
     \<Rightarrow> decision \<times> sale_state" where
  "execute_prediction_override pp batch_baseline day inventory pred_signal ph st =
     (let direction = direction pred_signal;
          net_benefit = net_benefit_pct pred_signal;
          cv = cv pred_signal;
          (batch_size, r) =
            (if direction = STRONG_UPWARD
             then (batch_pred_hold pp,
                   (''OVERRIDE_hold_strong_upward_net{}%_cv{}'', [net_benefit, cv]))
             else if direction = MODERATE_UPWARD
             then (batch_pred_cautious pp,
                   (''OVERRIDE_small_hedge_mod_upward_net{}%_cv{}'', [net_benefit, cv]))
             else if direction = STRONG_DOWNWARD
             then (batch_pred_aggressive pp,
                   (''OVERRIDE_aggressive_strong_downward_net{}%_cv{}'', [net_benefit, cv]))
             else if direction = MODERATE_DOWNWARD
             then (batch_baseline,
                   (''OVERRIDE_baseline_mod_downward_net{}%_cv{}'', [net_benefit, cv]))
             else (batch_baseline, (''OVERRIDE_neutral_net{}%_cv{}'', [net_benefit, cv])))
      in execute_trade day inventory batch_size r st)"

text \<open>The dict \<open>_get_baseline_action\<close> returns.\<close>

record baseline_action =
  triggered :: bool
  ba_batch_size :: real
  ba_reason :: reason

text \<open>\<open>_execute_blended_decision\<close>. The method \<open>_get_baseline_action\<close> it calls is not
  listed and is a parameter here.\<close>

definition execute_blended_decision ::
  "(real \<Rightarrow> price_history \<Rightarrow> baseline_action) \<Rightarrow> pred_params \<Rightarrow> int \<Rightarrow> real \<Rightarrow> real
     \<Rightarrow> price_history \<Rightarrow> pred_signal \<Rightarrow> sale_state \<Rightarrow> decision \<times> sale_state" where
  "execute_blended_decision get_baseline_action pp day inventory current_price ph pred_signal st =
     (let baseline_action = get_baseline_action current_price ph;
          direction = direction pred_signal;
          net_benefit = net_benefit_pct pred_signal
      in if triggered baseline_action
         then
           (if direction \<in> {STRONG_UPWARD, MODERATE_UPWARD}
            then execute_trade day inventory (ba_batch_size baseline_action * 0.5)
                   (''BLEND_reduce_sell_pred_upward_net{}%'', [net_benefit]) st
            else execute_trade day inventory (ba_batch_size baseline_action)
                   (''BLEND_follow_baseline_'' @ fst (ba_reason baseline_action),
                    snd (ba_reason baseline_action)) st)
         else
           (if direction \<in> {STRONG_DOWNWARD, MODERATE_DOWNWARD}
            then execute_trade day inventory (batch_pred_cautious pp)
                   (''BLEND_cautious_sell_pred_downward_net{}%'', [net_benefit]) st
            else (mk_decision HOLD 0 (''BLEND_hold_pred_agrees'', []), st)))"

subsection \<open>PriceThresholdPredictive\<close>

text \<open>
  Modelled from the spec: \<open>PriceThresholdPredictive._analyze_baseline_technicals\<close> is not
  listed. \<open>_execute_baseline_logic\<close>, which calls it, is documented to execute logic
  identical to \<open>PriceThresholdStrategy\<close>, so it is the baseline's \<open>_analyze_historical\<close>.
\<close>

definition analyze_baseline_technicals :: "pt_params \<Rightarrow> real \<Rightarrow> price_history \<Rightarrow> real \<times> reason" where
  "analyze_baseline_technicals pt current_price ph = pt_analyze_historical pt current_price ph"

text \<open>
  Modelled from the spec: \<open>PriceThresholdPredictive._get_baseline_action\<close> is not listed.
  Its caller reads \<open>triggered\<close> as "price above threshold" and \<open>batch_size\<close> as the
  baseline's batch, the paired baseline's internal signal.
\<close>

definition ptp_get_baseline_action :: "pt_params \<Rightarrow> real \<Rightarrow> price_history \<Rightarrow> baseline_action" where
  "ptp_get_baseline_action pt current_price ph =
     (let (batch_size, r) = analyze_baseline_technicals pt current_price ph
      in \<lparr>triggered = (current_price > pt_threshold pt current_price ph),
          ba_batch_size = batch_size, ba_reason = r\<rparr>)"

text \<open>\<open>PriceThresholdPredictive._execute_baseline_logic\<close>.\<close>

definition ptp_execute_baseline_logic ::
  "pt_params \<Rightarrow> int \<Rightarrow> real \<Rightarrow> real \<Rightarrow> price_history \<Rightarrow> sale_state
     \<Rightarrow> decision \<times> sale_state" where
  "ptp_execute_baseline_logic pt day inventory current_price ph st =
     (let days_since_sale = day - last_sale_day st;
          threshold = pt_threshold pt current_price ph;
          signal_triggered = (current_price > threshold)
      in if \<not> signal_triggered
         then (if days_since_sale \<ge> pt_max_days_without_sale pt
               then execute_trade day inventory (pt_batch_baseline pt)
                      (''BASELINE_fallback_{}d'', [Fin (real_of_int days_since_sale)]) st
               else (mk_decision HOLD 0
                       (''BASELINE_below_threshold_{}<{}'', [Fin current_price, Fin threshold]),
                     st))
         else
           let (batch_size, r) = analyze_baseline_technicals pt current_price ph
           in execute_trade day inventory batch_size (''BASELINE_'' @ fst r, snd r) st)"

text \<open>\<open>PriceThresholdPredictive.decide\<close>.\<close>

definition PriceThresholdPredictive_decide ::
  "pt_params \<Rightarrow> pred_params \<Rightarrow> sale_state \<Rightarrow> int \<Rightarrow> real \<Rightarrow> real \<Rightarrow> price_history
     \<Rightarrow> matrix option \<Rightarrow> error + (decision \<times> sale_state)" where
  "PriceThresholdPredictive_decide pt pp st day inventory current_price ph predictions =
     (if inventory \<le> 0 then Inr (mk_decision HOLD 0 (''no_inventory'', []), st)
      else case force_liquidation_check (pt_max_holding_days pt) day inventory of
        Some forced \<Rightarrow> Inr (forced, st)
      | None \<Rightarrow>
          let days_since_sale = day - last_sale_day st
          in if days_since_sale < pt_cooldown_days pt
             then Inr (mk_decision HOLD 0
                         (''cooldown_{}d'',
                          [Fin (real_of_int (pt_cooldown_days pt - days_since_sale))]), st)
             else
               let baseline = Inr (ptp_execute_baseline_logic pt day inventory current_price ph st)
               in case predictions of
                    None \<Rightarrow> baseline
                  | Some m \<Rightarrow>
                      if msize m > 0
                      then (case analyze_prediction_signal pp current_price ph m of
                              Inl e \<Rightarrow> Inl e
                            | Inr pred_signal \<Rightarrow>
                                if confidence pred_signal = HIGH
                                then Inr (execute_prediction_override pp (pt_batch_baseline pt)
                                            day inventory pred_signal ph st)
                                else if confidence pred_signal = MEDIUM
                                then Inr (execute_blended_decision (ptp_get_baseline_action pt)
                                            pp day inventory current_price ph pred_signal st)
                                else baseline)
                      else baseline)"

subsection \<open>MovingAveragePredictive\<close>

text \<open>
  Modelled from the spec: the code of \<open>MovingAveragePredictive\<close> is not listed. It is
  documented as identical in structure to \<open>PriceThresholdPredictive\<close> (forced liquidation,
  cooldown, then the three confidence tiers), with \<open>_execute_baseline_logic\<close> being the
  moving-average crossover detection of its baseline; \<open>_get_baseline_action\<close> is a
  parameter.
\<close>

definition MovingAveragePredictive_decide ::
  "(real \<Rightarrow> price_history \<Rightarrow> baseline_action) \<Rightarrow> ma_params \<Rightarrow> pred_params \<Rightarrow> sale_state
     \<Rightarrow> int \<Rightarrow> real \<Rightarrow> real \<Rightarrow> price_history \<Rightarrow> matrix option
     \<Rightarrow> error + (decision \<times> sale_state)" where
  "MovingAveragePredictive_decide get_baseline_action ma pp st day inventory current_price ph
     predictions =
     (if inventory \<le> 0 then Inr (mk_decision HOLD 0 (''no_inventory'', []), st)
      else case force_liquidation_check (ma_max_holding_days ma) day inventory of
        Some forced \<Rightarrow> Inr (forced, st)
      | None \<Rightarrow>
          let days_since_sale = day - last_sale_day st
          in if days_since_sale < ma_cooldown_days ma
             then Inr (mk_decision HOLD 0
                         (''cooldown_{}d'',
                          [Fin (real_of_int (ma_cooldown_days ma - days_since_sale))]), st)
             else
               let baseline = ma_decide_body ma st day inventory current_price ph
               in case predictions of
                    None \<Rightarrow> baseline
                  | Some m \<Rightarrow>
                      if msize m > 0
                      then (case analyze_prediction_signal pp current_price ph m of
                              Inl e \<Rightarrow> Inl e
                            | Inr pred_signal \<Rightarrow>
                                if confidence pred_signal = HIGH
                                then Inr (execute_prediction_override pp (ma_batch_baseline ma)
                                            day inventory pred_signal ph st)
                                else if confidence pred_signal = MEDIUM
                                then Inr (execute_blended_decision get_baseline_action
                                            pp day inventory current_price ph pred_signal st)
                                else baseline)
                      else baseline)"

subsection \<open>ExpectedValueStrategy\<close>

record ev_params =
  ev_max_holding_days :: int
  ev_storage_cost_pct_per_day :: real
  ev_transaction_cost_pct :: real
  ev_min_net_benefit_pct :: real
  negative_threshold_pct :: real
  ev_high_confidence_cv :: real
  ev_medium_confidence_cv :: real
  ev_strong_trend_adx :: real
  batch_positive_confident :: real
  batch_positive_uncertain :: real
  batch_marginal :: real
  batch_negative_mild :: real
  batch_negative_strong :: real
  ev_cooldown_days :: int
  baseline_batch :: real
  baseline_frequency :: int


text \<open>\<open>np.argmax\<close>: the first index of the largest entry of a non-empty list.\<close>

definition argmax :: "real list \<Rightarrow> nat" where
  "argmax xs = length (takeWhile (\<lambda>x. x \<noteq> maximum xs) xs)"

text \<open>\<open>_find_optimal_sale_day_pct\<close>.\<close>

definition find_optimal_sale_day_pct :: "ev_params \<Rightarrow> real \<Rightarrow> matrix \<Rightarrow> error + (nat \<times> npfloat)" where
  "find_optimal_sale_day_pct p current_price m =
     (if ncols m < 14 then Inl IndexError
      else
        let ev_by_day = map (ev_of_day (ev_storage_cost_pct_per_day p)
                               (ev_transaction_cost_pct p) current_price m) [0..<14];
            transaction_cost_today = current_price * (ev_transaction_cost_pct p / 100);
            ev_today = current_price - transaction_cost_today;
            optimal_day = argmax ev_by_day
        in Inr (optimal_day,
                np_div (100 * (ev_by_day ! optimal_day - ev_today)) current_price))"

text \<open>\<open>_analyze_expected_value_pct\<close>.\<close>

definition analyze_expected_value_pct ::
  "ev_params \<Rightarrow> real \<Rightarrow> price_history \<Rightarrow> matrix \<Rightarrow> error + (real \<times> reason)" where
  "analyze_expected_value_pct p current_price ph m =
     (case find_optimal_sale_day_pct p current_price m of
        Inl e \<Rightarrow> Inl e
      | Inr (optimal_day, nb) \<Rightarrow>
          let cv = calculate_prediction_confidence (Some m) 13;
              adx = fst (calculate_adx ph 14)
          in Inr
            (if np_gt nb (ev_min_net_benefit_pct p)
             then (if cv < ev_high_confidence_cv p \<and> adx > ev_strong_trend_adx p
                   then (batch_positive_confident p,
                         (''net_benefit_{}%_high_conf_hold_to_day{}'',
                          [nb, Fin (real optimal_day)]))
                   else if cv < ev_medium_confidence_cv p
                   then (batch_positive_uncertain p,
                         (''net_benefit_{}%_med_conf_small_hedge_day{}'',
                          [nb, Fin (real optimal_day)]))
                   else (batch_marginal p, (''net_benefit_{}%_low_conf_hedge'', [nb])))
             else if np_gt nb 0
             then (batch_marginal p, (''marginal_benefit_{}%_gradual_liquidation'', [nb]))
             else if np_gt nb (negative_threshold_pct p)
             then (batch_negative_mild p, (''mild_negative_{}%_avoid_storage'', [nb]))
             else (batch_negative_strong p,
                   (''strong_negative_{}%_sell_to_cut_losses'', [nb]))))"

text \<open>\<open>ExpectedValueStrategy.decide\<close>, from the strategy overview's listing.\<close>

definition ExpectedValueStrategy_decide ::
  "ev_params \<Rightarrow> sale_state \<Rightarrow> int \<Rightarrow> real \<Rightarrow> real \<Rightarrow> price_history \<Rightarrow> matrix option
     \<Rightarrow> error + (decision \<times> sale_state)" where
  "ExpectedValueStrategy_decide p st day inventory current_price ph predictions =
     (if inventory \<le> 0 then Inr (mk_decision HOLD 0 unlisted, st)
      else case force_liquidation_check (ev_max_holding_days p) day inventory of
        Some forced \<Rightarrow> Inr (forced, st)
      | None \<Rightarrow>
          let days_since_sale = day - last_sale_day st
          in if days_since_sale < ev_cooldown_days p
             then Inr (mk_decision HOLD 0 unlisted, st)
             else case predictions of
               None \<Rightarrow>
                 if days_since_sale \<ge> baseline_frequency p
                 then Inr (execute_trade day inventory (baseline_batch p) unlisted st)
                 else Inr (mk_decision HOLD 0 unlisted, st)
             | Some m \<Rightarrow>
                 (case analyze_expected_value_pct p current_price ph m of
                    Inl e \<Rightarrow> Inl e
                  | Inr (batch_size, r) \<Rightarrow>
                      Inr (execute_trade day inventory batch_size r st)))"

subsection \<open>ConsensusStrategy\<close>

record cs_params =
  cs_max_holding_days :: int
  cs_storage_cost_pct_per_day :: real
  cs_transaction_cost_pct :: real
  consensus_threshold :: real
  very_strong_consensus :: real
  moderate_consensus :: real
  cs_min_return :: real
  cs_min_net_benefit_pct :: real
  cs_high_confidence_cv :: real
  cs_evaluation_day :: nat
  batch_strong_consensus :: real
  batch_moderate :: real
  batch_weak :: real
  batch_bearish :: real
  cs_cooldown_days :: int


text \<open>\<open>eval_day = min(self.evaluation_day, predictions.shape[1] - 1)\<close>; on a matrix
  without columns it is \<open>-1\<close> and \<open>predictions[:, eval_day]\<close> raises IndexError.\<close>

definition eval_day_of :: "nat \<Rightarrow> matrix \<Rightarrow> error + nat" where
  "eval_day_of evaluation_day m =
     (if ncols m = 0 then Inl IndexError else Inr (min evaluation_day (ncols m - 1)))"

text \<open>The fraction of paths whose return over the current price exceeds \<open>min_return\<close>.\<close>

definition bullish_pct_of :: "real \<Rightarrow> real \<Rightarrow> real list \<Rightarrow> real" where
  "bullish_pct_of min_return current_price day_predictions =
     (let bullish_count =
            length (filter (\<lambda>x. np_gt (np_div (x - current_price) current_price) min_return)
                      day_predictions)
      in real bullish_count / real (length day_predictions))"

text \<open>The net benefit \<open>_analyze_consensus_pct\<close> and \<open>_analyze_risk_adjusted_pct\<close>
  compute at the evaluation day.\<close>

definition eval_net_benefit_pct :: "real \<Rightarrow> real \<Rightarrow> npfloat \<Rightarrow> nat \<Rightarrow> npfloat" where
  "eval_net_benefit_pct storage_pct_per_day transaction_pct expected_return_pct eval_day =
     (let days_to_wait = real eval_day + 1;
          storage_cost_pct = (storage_pct_per_day / 100) * days_to_wait;
          transaction_cost_pct = transaction_pct / 100
      in np_scale 100 (np_sub (np_sub expected_return_pct storage_cost_pct)
                         transaction_cost_pct))"

text \<open>\<open>_analyze_consensus_pct\<close>.\<close>

definition analyze_consensus_pct ::
  "cs_params \<Rightarrow> real \<Rightarrow> price_history \<Rightarrow> matrix \<Rightarrow> error + (real \<times> reason)" where
  "analyze_consensus_pct p current_price ph m =
     (case eval_day_of (cs_evaluation_day p) m of
        Inl e \<Rightarrow> Inl e
      | Inr eval_day \<Rightarrow>
          let day_predictions = column m eval_day;
              median_future = median day_predictions;
              expected_return_pct = np_div (median_future - current_price) current_price;
              bullish_pct = bullish_pct_of (cs_min_return p) current_price day_predictions;
              cv = calculate_prediction_confidence (Some m) eval_day;
              nb = eval_net_benefit_pct (cs_storage_cost_pct_per_day p)
                     (cs_transaction_cost_pct p) expected_return_pct eval_day
          in Inr
            (if bullish_pct \<ge> very_strong_consensus p \<and> np_gt nb (cs_min_net_benefit_pct p)
             then (batch_strong_consensus p,
                   (''very_strong_consensus_{}_net_{}%_hold'', [Fin bullish_pct, nb]))
             else if bullish_pct \<ge> consensus_threshold p \<and> np_gt nb (cs_min_net_benefit_pct p)
             then (if cv < cs_high_confidence_cv p
                   then (batch_strong_consensus p,
                         (''strong_consensus_{}_high_conf_hold'', [Fin bullish_pct]))
                   else (batch_moderate p,
                         (''strong_consensus_{}_med_conf_gradual'', [Fin bullish_pct])))
             else if bullish_pct \<ge> moderate_consensus p
             then (batch_moderate p, (''moderate_consensus_{}_gradual'', [Fin bullish_pct]))
             else if bullish_pct < (1 - consensus_threshold p)
             then (batch_bearish p, (''bearish_consensus_{}_sell'', [Fin bullish_pct]))
             else (batch_weak p, (''weak_consensus_{}_sell'', [Fin bullish_pct]))))"

text \<open>\<open>ConsensusStrategy.decide\<close>, from the strategy overview's listing.\<close>

definition ConsensusStrategy_decide ::
  "cs_params \<Rightarrow> sale_state \<Rightarrow> int \<Rightarrow> real \<Rightarrow> real \<Rightarrow> price_history \<Rightarrow> matrix option
     \<Rightarrow> error + (decision \<times> sale_state)" where
  "ConsensusStrategy_decide p st day inventory current_price ph predictions =
     (if inventory \<le> 0 then Inr (mk_decision HOLD 0 unlisted, st)
      else case force_liquidation_check (cs_max_holding_days p) day inventory of
        Some forced \<Rightarrow> Inr (forced, st)
      | None \<Rightarrow>
          let days_since_sale = day - last_sale_day st
          in if days_since_sale < cs_cooldown_days p
             then Inr (mk_decision HOLD 0 unlisted, st)
             else case predictions of
               None \<Rightarrow>
                 if days_since_sale \<ge> 30
                 then Inr (execute_trade day inventory 0.20 unlisted st)
                 else Inr (mk_decision HOLD 0 unlisted, st)
             | Some m \<Rightarrow>
                 (case analyze_consensus_pct p current_price ph m of
                    Inl e \<Rightarrow> Inl e
                  | Inr (batch_size, r) \<Rightarrow>
                      Inr (execute_trade day inventory batch_size r st)))"

subsection \<open>RiskAdjustedStrategy\<close>

record ra_params =
  ra_max_holding_days :: int
  ra_storage_cost_pct_per_day :: real
  ra_transaction_cost_pct :: real
  ra_min_return :: real
  ra_min_net_benefit_pct :: real
  max_uncertainty_low :: real
  max_uncertainty_medium :: real
  max_uncertainty_high :: real
  ra_strong_trend_adx :: real
  ra_evaluation_day :: nat
  batch_low_risk :: real
  batch_medium_risk :: real
  batch_high_risk :: real
  batch_very_high_risk :: real
  ra_cooldown_days :: int


text \<open>\<open>_analyze_risk_adjusted_pct\<close>.\<close>

definition analyze_risk_adjusted_pct ::
  "ra_params \<Rightarrow> real \<Rightarrow> price_history \<Rightarrow> matrix \<Rightarrow> error + (real \<times> reason)" where
  "analyze_risk_adjusted_pct p current_price ph m =
     (case eval_day_of (ra_evaluation_day p) m of
        Inl e \<Rightarrow> Inl e
      | Inr eval_day \<Rightarrow>
          let day_predictions = column m eval_day;
              median_future = median day_predictions;
              expected_return_pct = np_div (median_future - current_price) current_price;
              cv = calculate_prediction_confidence (Some m) eval_day;
              nb = eval_net_benefit_pct (ra_storage_cost_pct_per_day p)
                     (ra_transaction_cost_pct p) expected_return_pct eval_day;
              adx = fst (calculate_adx ph (min 14 (int (length (price ph)) - 1)))
          in Inr
            (if np_ge expected_return_pct (ra_min_return p)
                \<and> np_gt nb (ra_min_net_benefit_pct p)
             then (if cv < max_uncertainty_low p \<and> adx > ra_strong_trend_adx p
                   then (batch_low_risk p,
                         (''low_risk_cv{}_return{}_hold'', [Fin cv, expected_return_pct]))
                   else if cv < max_uncertainty_medium p
                   then (batch_medium_risk p,
                         (''medium_risk_cv{}_return{}_small_hedge'',
                          [Fin cv, expected_return_pct]))
                   else if cv < max_uncertainty_high p
                   then (batch_high_risk p,
                         (''high_risk_cv{}_return{}_hedge'', [Fin cv, expected_return_pct]))
                   else (batch_very_high_risk p, (''very_high_risk_cv{}_sell'', [Fin cv])))
             else (if np_lt nb 0
                   then (batch_very_high_risk p, (''negative_net_benefit_{}%_sell'', [nb]))
                   else (batch_high_risk p,
                         (''insufficient_return_{}_sell'', [expected_return_pct])))))"

text \<open>\<open>RiskAdjustedStrategy.decide\<close>, from the strategy overview's listing.\<close>

definition RiskAdjustedStrategy_decide ::
  "ra_params \<Rightarrow> sale_state \<Rightarrow> int \<Rightarrow> real \<Rightarrow> real \<Rightarrow> price_history \<Rightarrow> matrix option
     \<Rightarrow> error + (decision \<times> sale_state)" where
  "RiskAdjustedStrategy_decide p st day inventory current_price ph predictions =
     (if inventory \<le> 0 then Inr (mk_decision HOLD 0 unlisted, st)
      else case force_liquidation_check (ra_max_holding_days p) day inventory of
        Some forced \<Rightarrow> Inr (forced, st)
      | None \<Rightarrow>
          let days_since_sale = day - last_sale_day st
          in if days_since_sale < ra_cooldown_days p
             then Inr (mk_decision HOLD 0 unlisted, st)
             else case predictions of
               None \<Rightarrow>
                 if days_since_sale \<ge> 30
                 then Inr (execute_trade day inventory 0.20 unlisted st)
                 else Inr (mk_decision HOLD 0 unlisted, st)
             | Some m \<Rightarrow>
                 (case analyze_risk_adjusted_pct p current_price ph m of
                    Inl e \<Rightarrow> Inl e
                  | Inr (batch_size, r) \<Rightarrow>
                      Inr (execute_trade day inventory batch_size r st)))"

section \<open>Rolling Horizon MPC\<close>

record mpc_params =
  mpc_storage_cost_pct_per_day :: real
  mpc_transaction_cost_pct :: real
  horizon_days :: int
  terminal_value_decay :: real
  shadow_price_smoothing :: "real option"

definition mpc_defaults :: mpc_params where
  "mpc_defaults = \<lparr>mpc_storage_cost_pct_per_day = 0.3, mpc_transaction_cost_pct = 2.0,
     horizon_days = 14, terminal_value_decay = 0.95, shadow_price_smoothing = None\<rparr>"

text \<open>The mutable attribute of a \<open>RollingHorizonMPC\<close> object.\<close>

record mpc_state =
  smoothed_shadow_price :: "real option"

text \<open>The arguments handed to \<open>scipy.optimize.linprog\<close>: minimise \<open>c \<bullet> x\<close> subject to
  \<open>A_eq x = b_eq\<close> and the bounds (lower, upper), \<open>None\<close> meaning unbounded.\<close>

record lp_problem =
  lp_c :: "real list"
  lp_A_eq :: "real list list"
  lp_b_eq :: "real list"
  lp_bounds :: "(real \<times> real option) list"

text \<open>What the call does: it raises, or it returns an \<open>OptimizeResult\<close> with \<open>success\<close>,
  \<open>x\<close> and \<open>fun\<close>. The solver itself is external; the strategy is modelled for any solver.\<close>

datatype linprog_outcome = Raises | OptimizeResult bool "real list" real

type_synonym solver = "lp_problem \<Rightarrow> linprog_outcome"

record lp_solution =
  sell_solution :: "real list"
  inventory_solution :: "real list"
  objective_value :: real
  shadow_price :: real

text \<open>One row of \<open>A_eq\<close>, as the loop body builds it.\<close>

definition balance_row :: "nat \<Rightarrow> nat \<Rightarrow> real list" where
  "balance_row n_days t =
     (let row = replicate (2 * n_days) 0;
          row = row[0 + t := 1];
          row = row[n_days + t := 1]
      in if t > 0 then row[n_days + t - 1 := - 1] else row)"

definition balance_rhs :: "real \<Rightarrow> real list \<Rightarrow> nat \<Rightarrow> real" where
  "balance_rhs current_inventory future_harvest t =
     (if t > 0 then future_harvest ! t else current_inventory + future_harvest ! t)"

text \<open>
  \<open>_solve_window_lp\<close> up to the \<open>try\<close>: the objective, the constraints and the bounds.
  With an empty window \<open>future_prices[-1]\<close> (or \<open>c[-1]\<close>) raises IndexError.
\<close>

definition window_lp ::
  "mpc_params \<Rightarrow> mpc_state \<Rightarrow> real \<Rightarrow> real list \<Rightarrow> real list \<Rightarrow> error + lp_problem" where
  "window_lp p st current_inventory future_prices future_harvest =
     (let n_days = length future_prices;
          revenue_coeff = map (\<lambda>x. x * (1 - mpc_transaction_cost_pct p / 100)) future_prices;
          storage_coeff = map (\<lambda>x. x * (mpc_storage_cost_pct_per_day p / 100)) future_prices;
          c = map uminus revenue_coeff @ storage_coeff;
          A_eq = map (balance_row n_days) [0..<n_days];
          b_eq = map (balance_rhs current_inventory future_harvest) [0..<n_days]
      in if n_days = 0 then Inl IndexError
         else
           let terminal_val_coeff =
                 (case (shadow_price_smoothing p, smoothed_shadow_price st) of
                    (Some _, Some ssp) \<Rightarrow> - ssp
                  | _ \<Rightarrow> - last future_prices * terminal_value_decay p);
               c = c[n_days + n_days - 1 := c ! (n_days + n_days - 1) + terminal_val_coeff];
               bounds = replicate (2 * n_days) (0, None)
           in Inr \<lparr>lp_c = c, lp_A_eq = A_eq, lp_b_eq = b_eq, lp_bounds = bounds\<rparr>)"

text \<open>\<open>_solve_window_lp\<close>: \<open>None\<close> when the solver raises or reports no success.\<close>

definition solve_window_lp ::
  "solver \<Rightarrow> mpc_params \<Rightarrow> mpc_state \<Rightarrow> real \<Rightarrow> real list \<Rightarrow> real list
     \<Rightarrow> error + lp_solution option" where
  "solve_window_lp linprog p st current_inventory future_prices future_harvest =
     (case window_lp p st current_inventory future_prices future_harvest of
        Inl e \<Rightarrow> Inl e
      | Inr lp \<Rightarrow>
          (case linprog lp of
             Raises \<Rightarrow> Inr None
           | OptimizeResult success x f \<Rightarrow>
               if \<not> success then Inr None
               else
                 let n_days = length future_prices
                 in Inr (Some \<lparr>sell_solution = take n_days x,
                                inventory_solution = drop n_days x,
                                objective_value = - f,
                                shadow_price = last future_prices * terminal_value_decay p\<rparr>)))"

definition pred_len :: "predictions \<Rightarrow> nat" where
  "pred_len ps = (case ps of Matrix m \<Rightarrow> length m | Vector v \<Rightarrow> length v)"

definition available_horizon :: "predictions \<Rightarrow> nat" where
  "available_horizon ps = (case ps of Matrix m \<Rightarrow> ncols m | Vector v \<Rightarrow> length v)"

definition future_prices_cents :: "predictions \<Rightarrow> nat \<Rightarrow> real list" where
  "future_prices_cents ps window_len =
     (case ps of
        Matrix m \<Rightarrow> map (\<lambda>j. mean (column m j)) [0..<window_len]
      | Vector v \<Rightarrow> take window_len v)"

definition update_shadow_price :: "mpc_params \<Rightarrow> mpc_state \<Rightarrow> lp_solution \<Rightarrow> mpc_state" where
  "update_shadow_price p st result =
     (case shadow_price_smoothing p of
        None \<Rightarrow> st
      | Some alpha \<Rightarrow>
          (case smoothed_shadow_price st of
             None \<Rightarrow> st\<lparr>smoothed_shadow_price := Some (shadow_price result)\<rparr>
           | Some ssp \<Rightarrow>
               st\<lparr>smoothed_shadow_price :=
                    Some (alpha * shadow_price result + (1 - alpha) * ssp)\<rparr>))"

text \<open>\<open>RollingHorizonMPC.decide\<close>. \<open>current_price\<close> and \<open>price_history\<close> are not read.\<close>

definition RollingHorizonMPC_decide ::
  "solver \<Rightarrow> mpc_params \<Rightarrow> mpc_state \<Rightarrow> int \<Rightarrow> real \<Rightarrow> real \<Rightarrow> price_history
     \<Rightarrow> predictions option \<Rightarrow> error + (decision \<times> mpc_state)" where
  "RollingHorizonMPC_decide linprog p st day inventory current_price ph predictions =
     (if inventory \<le> 0 then Inr (mk_decision HOLD 0 (''no_inventory'', []), st)
      else case predictions of
        None \<Rightarrow> Inr (mk_decision HOLD 0 (''no_predictions'', []), st)
      | Some ps \<Rightarrow>
          if pred_len ps = 0 then Inr (mk_decision HOLD 0 (''no_predictions'', []), st)
          else
            let window_len = min (horizon_days p) (int (available_horizon ps))
            in if window_len \<le> 0
               then Inr (mk_decision SELL inventory (''no_forecast_horizon'', []), st)
               else
                 let future_prices_per_ton =
                       map (\<lambda>x. x * 20) (future_prices_cents ps (nat window_len));
                     future_harvest = replicate (nat window_len) 0
                 in case solve_window_lp linprog p st inventory future_prices_per_ton
                           future_harvest of
                      Inl e \<Rightarrow> Inl e
                    | Inr None \<Rightarrow> Inr (mk_decision HOLD 0 (''lp_failed'', []), st)
                    | Inr (Some result) \<Rightarrow>
                        (case sell_solution result of
                           [] \<Rightarrow> Inl IndexError
                         | sell_today # _ \<Rightarrow>
                             let st' = update_shadow_price p st result
                             in if sell_today < 0.1
                                then Inr (mk_decision HOLD 0 (''mpc_hold'', []), st')
                                else
                                  let sell_amount = min sell_today inventory
                                  in Inr (\<lparr>action = SELL, amount = sell_amount,
                                           reason = (''mpc_optimize'', []),
                                           info = [(''window_len'', real_of_int window_len),
                                                   (''predicted_net_value'',
                                                    objective_value result)]\<rparr>, st')))"

section \<open>Backtest engine\<close>

text \<open>The engine's \<open>_force_liquidation_check\<close> as the system overview lists it: a
  gradual sale of 5% a day from day 345 after the harvest start, everything from day 365.\<close>

definition engine_force_liquidation_check :: "int \<Rightarrow> int \<Rightarrow> real \<Rightarrow> decision option" where
  "engine_force_liquidation_check harvest_start day inventory =
     (let days_since_harvest = day - harvest_start
      in if days_since_harvest \<ge> 365
         then Some (mk_decision SELL inventory unlisted)
         else if days_since_harvest \<ge> 345
         then Some (mk_decision SELL (inventory * 0.05) unlisted)
         else None)"

text \<open>
  Modelled from the spec: the daily loop of \<open>BacktestEngine\<close> is not listed; only its
  cost formulas, its harvest schedule and its forced-liquidation check are. The step below
  follows the spec's words: the engine applies the day's harvest inflow, accrues the
  storage cost on the inventory held going into the sale, enforces forced liquidation and
  otherwise queries the active policy, halts with \<open>StateInvariantViolation\<close> on a sell
  amount that is negative or exceeds the inventory, levies the transaction cost on an
  executed sale, appends to the trade log and advances the day by one. The policy is any
  function of its own state, the day, the inventory and the price.
\<close>

datatype engine_error = StateInvariantViolation

record cost_parameters =
  storage_cost_rate_per_day :: real
  transaction_cost_rate :: real

record trade_log_entry =
  log_day :: nat
  log_action :: action
  log_amount :: real
  log_reason :: reason
  log_inventory :: real

record 'ps simulation_state =
  sim_day :: nat
  sim_inventory :: real
  policy_state :: 'ps
  trade_log :: "trade_log_entry list"
  total_storage_cost :: real
  total_transaction_cost :: real

definition storage_cost :: "real \<Rightarrow> real \<Rightarrow> real \<Rightarrow> real \<Rightarrow> real" where
  "storage_cost inventory unit_price rate_per_day days =
     inventory * unit_price * rate_per_day * days"

definition transaction_cost :: "real \<Rightarrow> real \<Rightarrow> real \<Rightarrow> real" where
  "transaction_cost sale_amount unit_price rate = sale_amount * unit_price * rate"

type_synonym 'ps policy = "'ps \<Rightarrow> nat \<Rightarrow> real \<Rightarrow> real \<Rightarrow> decision \<times> 'ps"

definition engine_step ::
  "cost_parameters \<Rightarrow> int \<Rightarrow> (nat \<Rightarrow> real) \<Rightarrow> (nat \<Rightarrow> real) \<Rightarrow> 'ps policy
     \<Rightarrow> 'ps simulation_state \<Rightarrow> engine_error + 'ps simulation_state" where
  "engine_step costs harvest_start harvest_schedule prices policy s =
     (let day = sim_day s;
          inventory = sim_inventory s + harvest_schedule day;
          price_per_ton = prices day * 20;
          storage = storage_cost inventory price_per_ton (storage_cost_rate_per_day costs) 1;
          (d, ps') =
            (case engine_force_liquidation_check harvest_start (int day) inventory of
               Some forced \<Rightarrow> (forced, policy_state s)
             | None \<Rightarrow> policy (policy_state s) day inventory (prices day));
          sold = (if action d = SELL then amount d else 0)
      in if sold < 0 \<or> sold > inventory then Inl StateInvariantViolation
         else Inr \<lparr>sim_day = day + 1,
                   sim_inventory = inventory - sold,
                   policy_state = ps',
                   trade_log = trade_log s @
                     [\<lparr>log_day = day, log_action = action d, log_amount = sold,
                       log_reason = reason d, log_inventory = inventory - sold\<rparr>],
                   total_storage_cost = total_storage_cost s + storage,
                   total_transaction_cost = total_transaction_cost s
                     + transaction_cost sold price_per_ton (transaction_cost_rate costs)\<rparr>)"

fun run_days ::
  "cost_parameters \<Rightarrow> int \<Rightarrow> (nat \<Rightarrow> real) \<Rightarrow> (nat \<Rightarrow> real) \<Rightarrow> 'ps policy
     \<Rightarrow> nat \<Rightarrow> 'ps simulation_state \<Rightarrow> engine_error + 'ps simulation_state" where
  "run_days costs harvest_start harvest_schedule prices policy 0 s = Inr s"
| "run_days costs harvest_start harvest_schedule prices policy (Suc n) s =
     (case engine_step costs harvest_start harvest_schedule prices policy s of
        Inl e \<Rightarrow> Inl e
      | Inr s' \<Rightarrow> run_days costs harvest_start harvest_schedule prices policy n s')"

definition initial_state :: "'ps \<Rightarrow> 'ps simulation_state" where
  "initial_state ps = \<lparr>sim_day = 0, sim_inventory = 0, policy_state = ps, trade_log = [],
     total_storage_cost = 0, total_transaction_cost = 0\<rparr>"

definition cumulative_harvest :: "(nat \<Rightarrow> real) \<Rightarrow> nat \<Rightarrow> real" where
  "cumulative_harvest harvest_schedule t = sum_list (map harvest_schedule [0..<t])"

definition cumulative_sales :: "'ps simulation_state \<Rightarrow> real" where
  "cumulative_sales s = sum_list (map log_amount (trade_log s))"

section \<open>Notions used in the statements\<close>

definition dot :: "real list \<Rightarrow> real list \<Rightarrow> real" where
  "dot xs ys = sum_list (map2 (*) xs ys)"


text \<open>The linear program \<open>RollingHorizonMPC.decide\<close> hands to the solver on a day.\<close>

definition mpc_window_problem ::
  "mpc_params \<Rightarrow> mpc_state \<Rightarrow> real \<Rightarrow> predictions \<Rightarrow> error + lp_problem" where
  "mpc_window_problem p st inventory ps =
     (let w = nat (min (horizon_days p) (int (available_horizon ps)))
      in window_lp p st inventory (map (\<lambda>x. x * 20) (future_prices_cents ps w))
           (replicate w 0))"

text \<open>The solver raised, or returned without success.\<close>

definition solver_failed :: "linprog_outcome \<Rightarrow> bool" where
  "solver_failed out =
     (case out of Raises \<Rightarrow> True | OptimizeResult success x f \<Rightarrow> \<not> success)"

text \<open>What a decision does: its action, its amount and the strategy's state after it (the
  reason is diagnostic only).\<close>

definition outcome :: "decision \<times> sale_state \<Rightarrow> action \<times> real \<times> sale_state" where
  "outcome r = (action (fst r), amount (fst r), snd r)"


definition upward :: "pred_signal \<Rightarrow> bool" where
  "upward s = (direction s = STRONG_UPWARD \<or> direction s = MODERATE_UPWARD)"

definition downward :: "pred_signal \<Rightarrow> bool" where
  "downward s = (direction s = STRONG_DOWNWARD \<or> direction s = MODERATE_DOWNWARD)"

text \<open>What the baseline's signal alone would sell: its batch of the inventory.\<close>

definition baseline_sell_amount :: "real \<Rightarrow> baseline_action \<Rightarrow> real" where
  "baseline_sell_amount inventory ba = inventory * ba_batch_size ba"














text \<open>Every sale a policy asks for is between 0 and the inventory it was shown.\<close>

definition amounts_within :: "'ps policy \<Rightarrow> bool" where
  "amounts_within policy =
     (\<forall>ps day inventory current_price.
        0 \<le> inventory \<longrightarrow>
          (let d = fst (policy ps day inventory current_price)
           in action d = SELL \<longrightarrow> 0 \<le> amount d \<and> amount d \<le> inventory))"

text \<open>Mass balance at a state: the harvest inflow up to its day is what was sold plus
  what is held, and what is held is not negative.\<close>

definition mass_balance :: "(nat \<Rightarrow> real) \<Rightarrow> 'ps simulation_state \<Rightarrow> bool" where
  "mass_balance harvest_schedule s =
     (cumulative_harvest harvest_schedule (sim_day s) = cumulative_sales s + sim_inventory s
      \<and> 0 \<le> sim_inventory s)"


definition medium_ensemble :: matrix where
  "medium_ensemble = [replicate 14 11, replicate 14 9]"


definition short_history :: price_history where
  "short_history = \<lparr>price = [100], high_low = None\<rparr>"

definition flat_history :: price_history where
  "flat_history = \<lparr>price = replicate 30 8, high_low = None\<rparr>"


section \<open>Rolling Horizon MPC: the linear program and the executed decision\<close>

lemma dot_Nil [simp]: "dot [] ys = 0" "dot xs [] = 0"
  by (simp_all add: dot_def)

lemma dot_Cons [simp]: "dot (x # xs) (y # ys) = x * y + dot xs ys"
  by (simp add: dot_def)




lemma length_future_prices_cents:
  "w \<le> available_horizon ps \<Longrightarrow> length (future_prices_cents ps w) = w"
  by (cases ps) (simp_all add: future_prices_cents_def available_horizon_def)

lemma mpc_window_problem_Inr:
  assumes "0 < min (horizon_days p) (int (available_horizon ps))"
  shows "\<exists>lp. mpc_window_problem p st inventory ps = Inr lp"
proof -
  let ?w = "nat (min (horizon_days p) (int (available_horizon ps)))"
  from assms have w: "0 < ?w" "?w \<le> available_horizon ps"
    by (auto simp: min_def split: if_splits)
  have "length (future_prices_cents ps ?w) = ?w"
    using w(2) by (rule length_future_prices_cents)
  with w(1) have "future_prices_cents ps ?w \<noteq> []" by auto
  then show ?thesis
    by (simp add: mpc_window_problem_def window_lp_def Let_def)
qed




text \<open>
  Claim C7. When the day's solve fails (the solver raises, or returns without success),
  \<open>RollingHorizonMPC.decide\<close> returns a HOLD of amount 0 with the reason \<open>lp_failed\<close>
  and leaves its state as it was; nothing is raised.
\<close>

theorem solver_failure_holds:
  assumes "0 < inventory" and "pred_len ps \<noteq> 0"
    and "0 < min (horizon_days p) (int (available_horizon ps))"
    and "mpc_window_problem p st inventory ps = Inr lp"
    and "solver_failed (linprog lp)"
  shows "RollingHorizonMPC_decide linprog p st day inventory current_price ph (Some ps)
         = Inr (mk_decision HOLD 0 (''lp_failed'', []), st)"
  using assms
  by (auto simp: RollingHorizonMPC_decide_def solve_window_lp_def mpc_window_problem_def
        solver_failed_def Let_def split: linprog_outcome.splits)

theorem solver_failure_holds_witness:
  "RollingHorizonMPC_decide (\<lambda>_. Raises) mpc_defaults \<lparr>smoothed_shadow_price = None\<rparr> 10 50 200
     \<lparr>price = [], high_low = None\<rparr> (Some (Vector [200, 201]))
   = Inr (mk_decision HOLD 0 (''lp_failed'', []), \<lparr>smoothed_shadow_price = None\<rparr>)"
proof -
  have h1: "(0::real) < 50" by simp
  have h2: "pred_len (Vector [200, 201]) \<noteq> 0" by (simp add: pred_len_def)
  have h3: "0 < min (horizon_days mpc_defaults) (int (available_horizon (Vector [200, 201])))"
    by (simp add: mpc_defaults_def available_horizon_def)
  obtain lp where h4: "mpc_window_problem mpc_defaults \<lparr>smoothed_shadow_price = None\<rparr> 50
      (Vector [200, 201]) = Inr lp"
    using mpc_window_problem_Inr [OF h3] by blast
  have h5: "solver_failed ((\<lambda>_. Raises) lp)" by (simp add: solver_failed_def)
  from solver_failure_holds [OF h1 h2 h3 h4 h5] show ?thesis .
qed

text \<open>
  Claim C10. When the day's solve succeeds with first-day sell amount \<open>sell_today\<close>, the
  decision is a HOLD of amount 0 if \<open>sell_today < 0.1\<close>, and otherwise a SELL of
  \<open>min(sell_today, inventory)\<close>, which is at most the inventory.
\<close>

theorem mpc_sell_amount:
  assumes "0 < inventory" and "pred_len ps \<noteq> 0"
    and "0 < min (horizon_days p) (int (available_horizon ps))"
    and "mpc_window_problem p st inventory ps = Inr lp"
    and "linprog lp = OptimizeResult True (sell_today # later) f"
  shows "(case RollingHorizonMPC_decide linprog p st day inventory current_price ph (Some ps) of
            Inl e \<Rightarrow> False
          | Inr (d, st') \<Rightarrow>
              (if sell_today < 0.1 then action d = HOLD \<and> amount d = 0
               else action d = SELL \<and> amount d = min sell_today inventory
                    \<and> amount d \<le> inventory))"
proof -
  let ?w = "nat (min (horizon_days p) (int (available_horizon ps)))"
  from assms(3) have "0 < ?w" "?w \<le> available_horizon ps"
    by (auto simp: min_def split: if_splits)
  then have "length (future_prices_cents ps ?w) = ?w" "0 < ?w"
    by (simp_all add: length_future_prices_cents)
  then obtain a rest where fp: "map (\<lambda>x. x * 20) (future_prices_cents ps ?w) = a # rest"
    by (cases "future_prices_cents ps ?w") auto
  with assms show ?thesis
    by (auto simp: RollingHorizonMPC_decide_def solve_window_lp_def mpc_window_problem_def
        Let_def mk_decision_def)
qed

theorem mpc_sell_amount_witness:
  "(case RollingHorizonMPC_decide (\<lambda>_. OptimizeResult True [60, 0, 0, 0] 100) mpc_defaults
           \<lparr>smoothed_shadow_price = None\<rparr> 10 50 200 \<lparr>price = [], high_low = None\<rparr>
           (Some (Vector [200, 201])) of
      Inl e \<Rightarrow> False
    | Inr (d, st') \<Rightarrow> action d = SELL \<and> amount d = 50)"
proof -
  have h1: "(0::real) < 50" by simp
  have h2: "pred_len (Vector [200, 201]) \<noteq> 0" by (simp add: pred_len_def)
  have h3: "0 < min (horizon_days mpc_defaults) (int (available_horizon (Vector [200, 201])))"
    by (simp add: mpc_defaults_def available_horizon_def)
  obtain lp where h4: "mpc_window_problem mpc_defaults \<lparr>smoothed_shadow_price = None\<rparr> 50
      (Vector [200, 201]) = Inr lp"
    using mpc_window_problem_Inr [OF h3] by blast
  have h5: "(\<lambda>_. OptimizeResult True [60, 0, 0, 0] 100) lp
      = OptimizeResult True (60 # [0, 0, 0]) 100" by simp
  from mpc_sell_amount [OF h1 h2 h3 h4 h5, of 10 200 "\<lparr>price = [], high_low = None\<rparr>"]
  show ?thesis
    by (auto split: sum.splits prod.splits)
qed

section \<open>The checks in front of every strategy\<close>

lemmas decide_defs =
  ImmediateSaleStrategy_decide_def EqualBatchStrategy_decide_def
  PriceThresholdStrategy_decide_def MovingAverageStrategy_decide_def
  PriceThresholdPredictive_decide_def MovingAveragePredictive_decide_def
  ExpectedValueStrategy_decide_def ConsensusStrategy_decide_def
  RiskAdjustedStrategy_decide_def RollingHorizonMPC_decide_def



text \<open>
  Nine of the ten strategies call \<open>_force_liquidation_check\<close> right after the
  inventory check: with inventory on hand and \<open>day \<ge> max_holding_days\<close> each of them
  sells everything, whatever the prices, the history and the forecast are.
\<close>

lemma forced_liquidation_first:
  assumes "0 < inventory"
  shows "is_max_holding_days p1 \<le> day \<Longrightarrow> ImmediateSaleStrategy_decide p1 s1 day inventory current_price ph
           = (mk_decision SELL inventory (''force_liquidation_max_days'', []), s1)"
   and "eb_max_holding_days p2 \<le> day \<Longrightarrow> EqualBatchStrategy_decide p2 st day inventory current_price ph
           = (mk_decision SELL inventory (''force_liquidation_max_days'', []), st)"
   and "pt_max_holding_days p3 \<le> day \<Longrightarrow> PriceThresholdStrategy_decide p3 st day inventory current_price ph
           = (mk_decision SELL inventory (''force_liquidation_max_days'', []), st)"
   and "ma_max_holding_days p4 \<le> day \<Longrightarrow> MovingAverageStrategy_decide p4 st day inventory current_price ph
           = Inr (mk_decision SELL inventory (''force_liquidation_max_days'', []), st)"
   and "pt_max_holding_days p3 \<le> day \<Longrightarrow> PriceThresholdPredictive_decide p3 pp st day inventory current_price ph predictions
           = Inr (mk_decision SELL inventory (''force_liquidation_max_days'', []), st)"
   and "ma_max_holding_days p4 \<le> day \<Longrightarrow> MovingAveragePredictive_decide gba p4 pp st day inventory current_price ph predictions
           = Inr (mk_decision SELL inventory (''force_liquidation_max_days'', []), st)"
   and "ev_max_holding_days p7 \<le> day \<Longrightarrow> ExpectedValueStrategy_decide p7 st day inventory current_price ph predictions
           = Inr (mk_decision SELL inventory (''force_liquidation_max_days'', []), st)"
   and "cs_max_holding_days p8 \<le> day \<Longrightarrow> ConsensusStrategy_decide p8 st day inventory current_price ph predictions
           = Inr (mk_decision SELL inventory (''force_liquidation_max_days'', []), st)"
   and "ra_max_holding_days p9 \<le> day \<Longrightarrow> RiskAdjustedStrategy_decide p9 st day inventory current_price ph predictions
           = Inr (mk_decision SELL inventory (''force_liquidation_max_days'', []), st)"
  using assms by (simp_all add: decide_defs force_liquidation_check_def)

text \<open>
  \<open>RollingHorizonMPC.decide\<close> never reads the day: it has no forced-liquidation
  check.
\<close>

lemma mpc_ignores_day:
  "RollingHorizonMPC_decide linprog p st day inventory current_price ph predictions
   = RollingHorizonMPC_decide linprog p st day' inventory current_price ph predictions"
  by (simp add: RollingHorizonMPC_decide_def)

text \<open>
  Claim C2. On day 365, holding 10 tons and given no forecast, the MPC strategy with its
  default parameters holds, for any solver; the claim has every policy sell the whole
  inventory from day \<open>max_holding_days\<close> (365) on.
\<close>

theorem mpc_holds_past_deadline:
  "RollingHorizonMPC_decide linprog mpc_defaults \<lparr>smoothed_shadow_price = None\<rparr> 365 10 200
     \<lparr>price = [200], high_low = None\<rparr> None
   = Inr (mk_decision HOLD 0 (''no_predictions'', []), \<lparr>smoothed_shadow_price = None\<rparr>)"
  by (simp add: RollingHorizonMPC_decide_def)

section \<open>Cooldown\<close>
















section \<open>Fallback agreement of the matched pairs\<close>

lemma ptp_baseline_outcome:
  "outcome (ptp_execute_baseline_logic pt day inventory current_price ph st)
   = (if current_price > pt_threshold pt current_price ph
      then outcome (execute_trade day inventory (fst (pt_analyze_historical pt current_price ph)) r0 st)
      else if day - last_sale_day st \<ge> pt_max_days_without_sale pt
      then outcome (execute_trade day inventory (pt_batch_baseline pt) r0 st)
      else (HOLD, 0, st))"
  by (auto simp: ptp_execute_baseline_logic_def Let_def outcome_def execute_trade_def
        mk_decision_def analyze_baseline_technicals_def split: prod.splits)













section \<open>The blend at medium confidence\<close>

lemma analyze_confidence:
  assumes "analyze_prediction_signal pp current_price ph m = Inr s"
    and "\<not> np_lt (cv s) (high_confidence_cv pp)" and "np_lt (cv s) (medium_confidence_cv pp)"
  shows "confidence s = MEDIUM"
  using assms
  by (auto simp: analyze_prediction_signal_def Let_def split: sum.splits if_splits)

lemma blended_outcome:
  "(action (fst (execute_blended_decision gba pp day inventory current_price ph s st)),
    amount (fst (execute_blended_decision gba pp day inventory current_price ph s st)))
   = (if triggered (gba current_price ph)
      then (SELL, if upward s then baseline_sell_amount inventory (gba current_price ph) / 2
                  else baseline_sell_amount inventory (gba current_price ph))
      else if downward s then (SELL, inventory * batch_pred_cautious pp)
      else (HOLD, 0))"
  by (simp add: execute_blended_decision_def Let_def execute_trade_def mk_decision_def
        upward_def downward_def baseline_sell_amount_def)

text \<open>
  Claim C6. At medium confidence (the coefficient of variation is not below the high
  cut-off and is below the medium one) both matched-pair strategies return
  \<open>_execute_blended_decision\<close>. It sells half of what the baseline's signal would
  sell when that signal is triggered and the forecast direction is upward, and exactly
  what the signal would sell when it is triggered and the direction is not upward; with
  the signal not triggered it sells the cautious fraction of the inventory (15% by
  default) when the direction is downward, and holds otherwise. When the Price Threshold
  signal is triggered, the baseline strategy itself sells that batch on these inputs.
\<close>

theorem medium_confidence_blend:
  assumes "0 < inventory"
    and "day < pt_max_holding_days pt" and "pt_cooldown_days pt \<le> day - last_sale_day st"
    and "day < ma_max_holding_days ma" and "ma_cooldown_days ma \<le> day - last_sale_day st"
    and "0 < msize m" and "analyze_prediction_signal pp current_price ph m = Inr s"
    and "\<not> np_lt (cv s) (high_confidence_cv pp)" and "np_lt (cv s) (medium_confidence_cv pp)"
  shows "PriceThresholdPredictive_decide pt pp st day inventory current_price ph (Some m)
         = Inr (execute_blended_decision (ptp_get_baseline_action pt) pp day inventory
                  current_price ph s st)
       \<and> MovingAveragePredictive_decide gba ma pp st day inventory current_price ph (Some m)
         = Inr (execute_blended_decision gba pp day inventory current_price ph s st)
       \<and> (action (fst (execute_blended_decision gba pp day inventory current_price ph s st)),
          amount (fst (execute_blended_decision gba pp day inventory current_price ph s st)))
         = (if triggered (gba current_price ph)
            then (SELL, if upward s
                        then baseline_sell_amount inventory (gba current_price ph) / 2
                        else baseline_sell_amount inventory (gba current_price ph))
            else if downward s then (SELL, inventory * batch_pred_cautious pp)
            else (HOLD, 0))
       \<and> (if triggered (ptp_get_baseline_action pt current_price ph)
          then action (fst (PriceThresholdStrategy_decide pt st day inventory current_price ph))
                 = SELL
             \<and> amount (fst (PriceThresholdStrategy_decide pt st day inventory current_price ph))
                 = baseline_sell_amount inventory (ptp_get_baseline_action pt current_price ph)
          else True)"
proof -
  from analyze_confidence [OF assms(7,8,9)] have c: "confidence s = MEDIUM" .
  have 1: "PriceThresholdPredictive_decide pt pp st day inventory current_price ph (Some m)
         = Inr (execute_blended_decision (ptp_get_baseline_action pt) pp day inventory
                  current_price ph s st)"
    using assms c
    by (simp add: PriceThresholdPredictive_decide_def force_liquidation_check_def Let_def)
  have 2: "MovingAveragePredictive_decide gba ma pp st day inventory current_price ph (Some m)
         = Inr (execute_blended_decision gba pp day inventory current_price ph s st)"
    using assms c
    by (simp add: MovingAveragePredictive_decide_def force_liquidation_check_def Let_def)
  have 4: "triggered (ptp_get_baseline_action pt current_price ph) \<Longrightarrow>
      action (fst (PriceThresholdStrategy_decide pt st day inventory current_price ph)) = SELL
      \<and> amount (fst (PriceThresholdStrategy_decide pt st day inventory current_price ph))
          = baseline_sell_amount inventory (ptp_get_baseline_action pt current_price ph)"
    using assms(1,2,3)
    by (auto simp: PriceThresholdStrategy_decide_def force_liquidation_check_def Let_def
          ptp_get_baseline_action_def analyze_baseline_technicals_def baseline_sell_amount_def
          execute_trade_def mk_decision_def split: prod.splits)
  from 1 2 4 blended_outcome [of gba pp day inventory current_price ph s st]
  show ?thesis by simp
qed

lemma medium_column: "column medium_ensemble 13 = [11, 9]"
  by code_simp

lemma medium_median: "median [11, 9] = 10"
  by code_simp

lemma medium_std: "std [11, 9] = 1"
  by (simp add: std_def mean_def)

lemma medium_net_benefit:
  "calculate_net_benefit_pct pred_defaults 9 medium_ensemble = Inr (Fin (2221 / 200))"
  by code_simp

lemma pred_defaults_sel:
  "high_confidence_cv pred_defaults = 0.05" "medium_confidence_cv pred_defaults = 0.15"
  "strong_positive_threshold pred_defaults = 2" "moderate_threshold pred_defaults = 0.5"
  "strong_negative_threshold pred_defaults = - 1" "batch_pred_cautious pred_defaults = 0.15"
  by (simp_all add: pred_defaults_def)

lemma medium_signal:
  "analyze_prediction_signal pred_defaults 9 flat_history medium_ensemble
   = Inr \<lparr>confidence = MEDIUM, direction = STRONG_UPWARD,
          net_benefit_pct = Fin (2221 / 200), cv = Fin (1 / 10)\<rparr>"
  by (simp add: analyze_prediction_signal_def medium_net_benefit medium_column medium_median
        medium_std Let_def np_div_def np_lt_def np_gt_def pred_defaults_sel)

lemma flat_baseline_action:
  "ptp_get_baseline_action pt_defaults 9 flat_history
   = \<lparr>triggered = True, ba_batch_size = 0.30, ba_reason = (''overbought_rsi{}'', [Fin 100])\<rparr>"
  by code_simp

theorem medium_confidence_blend_witness:
  "(action (fst (execute_blended_decision (ptp_get_baseline_action pt_defaults) pred_defaults
       50 40 9 flat_history
       \<lparr>confidence = MEDIUM, direction = STRONG_UPWARD,
          net_benefit_pct = Fin (2221 / 200), cv = Fin (1 / 10)\<rparr> \<lparr>last_sale_day = 0\<rparr>)),
    amount (fst (execute_blended_decision (ptp_get_baseline_action pt_defaults) pred_defaults
       50 40 9 flat_history
       \<lparr>confidence = MEDIUM, direction = STRONG_UPWARD,
          net_benefit_pct = Fin (2221 / 200), cv = Fin (1 / 10)\<rparr> \<lparr>last_sale_day = 0\<rparr>)))
   = (SELL, 6)
   \<and> amount (fst (PriceThresholdStrategy_decide pt_defaults \<lparr>last_sale_day = 0\<rparr> 50 40 9
        flat_history)) = 12"
proof -
  have h1: "(0::real) < 40" by simp
  have h2: "50 < pt_max_holding_days pt_defaults" by (simp add: pt_defaults_def)
  have h3: "pt_cooldown_days pt_defaults \<le> 50 - last_sale_day \<lparr>last_sale_day = 0\<rparr>"
    by (simp add: pt_defaults_def)
  have h4: "50 < ma_max_holding_days ma_defaults" by (simp add: ma_defaults_def)
  have h5: "ma_cooldown_days ma_defaults \<le> 50 - last_sale_day \<lparr>last_sale_day = 0\<rparr>"
    by (simp add: ma_defaults_def)
  have h6: "0 < msize medium_ensemble" by code_simp
  have h8: "\<not> np_lt (cv \<lparr>confidence = MEDIUM, direction = STRONG_UPWARD,
          net_benefit_pct = Fin (2221 / 200), cv = Fin (1 / 10)\<rparr>)
        (high_confidence_cv pred_defaults)"
    by (simp add: np_lt_def pred_defaults_def)
  have h9: "np_lt (cv \<lparr>confidence = MEDIUM, direction = STRONG_UPWARD,
          net_benefit_pct = Fin (2221 / 200), cv = Fin (1 / 10)\<rparr>)
        (medium_confidence_cv pred_defaults)"
    by (simp add: np_lt_def pred_defaults_def)
  from medium_confidence_blend [OF h1 h2 h3 h4 h5 h6 medium_signal h8 h9,
      of "ptp_get_baseline_action pt_defaults"]
  show ?thesis
    by (simp add: flat_baseline_action upward_def baseline_sell_amount_def)
qed

section \<open>The tiers of the Ensemble Consensus strategy\<close>





lemma bullish_iff:
  assumes "0 < c"
  shows "np_gt (np_div (x - c) c) r \<longleftrightarrow> \<not> x \<le> c * (1 + r)"
  using assms by (auto simp: np_gt_def np_div_def field_simps)

lemma bullish_count:
  assumes "0 < c" and "xs \<noteq> []" and "7 / 10 \<le> bullish_pct_of r c xs"
  shows "10 * length (filter (\<lambda>x. x \<le> c * (1 + r)) xs) \<le> 3 * length xs"
proof -
  let ?P = "\<lambda>x. x \<le> c * (1 + r)"
  have f: "filter (\<lambda>x. np_gt (np_div (x - c) c) r) xs = filter (\<lambda>x. \<not> ?P x) xs"
    using bullish_iff [OF assms(1)] by simp
  have n: "0 < length xs" using assms(2) by simp
  from assms(3) have "7 / 10 \<le> real (length (filter (\<lambda>x. \<not> ?P x) xs)) / real (length xs)"
    by (simp add: bullish_pct_of_def f Let_def)
  with n have "7 * real (length xs) \<le> 10 * real (length (filter (\<lambda>x. \<not> ?P x) xs))"
    by (simp add: field_simps)
  then have "7 * length xs \<le> 10 * length (filter (\<lambda>x. \<not> ?P x) xs)"
    by (metis (no_types, lifting) of_nat_le_iff of_nat_mult of_nat_numeral)
  moreover have "length (filter ?P xs) + length (filter (\<lambda>x. \<not> ?P x) xs) = length xs"
    by (rule sum_length_filter_compl)
  ultimately show ?thesis by linarith
qed












section \<open>Mass balance of a backtest run\<close>

lemma cumulative_harvest_Suc:
  "cumulative_harvest h (Suc t) = cumulative_harvest h t + h t"
  by (simp add: cumulative_harvest_def)

lemma engine_step_balance:
  assumes "\<forall>d. 0 \<le> h d" and "mass_balance h s"
    and "engine_step costs hs h prices policy s = Inr s'"
  shows "mass_balance h s' \<and> sim_day s' = Suc (sim_day s)"
  using assms
  by (auto simp: engine_step_def mass_balance_def cumulative_sales_def cumulative_harvest_Suc
        Let_def split: if_splits prod.splits)

lemma engine_step_total:
  assumes "\<forall>d. 0 \<le> h d" and "0 \<le> sim_inventory s" and "amounts_within policy"
  shows "\<exists>s'. engine_step costs hs h prices policy s = Inr s'"
proof -
  let ?inv = "sim_inventory s + h (sim_day s)"
  from assms have inv: "0 \<le> ?inv" by (simp add: add_nonneg_nonneg)
  obtain d ps' where pol: "policy (policy_state s) (sim_day s) ?inv (prices (sim_day s)) = (d, ps')"
    by (cases "policy (policy_state s) (sim_day s) ?inv (prices (sim_day s))")
  from assms(3) inv pol have ok: "action d = SELL \<Longrightarrow> 0 \<le> amount d \<and> amount d \<le> ?inv"
    unfolding amounts_within_def Let_def by (metis fst_conv)
  show ?thesis
    using inv pol ok
    by (auto simp: engine_step_def Let_def engine_force_liquidation_check_def mk_decision_def
          mult_le_cancel_left1 split: prod.splits option.splits if_splits)
qed

lemma run_days_balance:
  assumes "\<forall>d. 0 \<le> h d" and "mass_balance h s"
  shows "case run_days costs hs h prices policy n s of
           Inl e \<Rightarrow> \<not> amounts_within policy
         | Inr s' \<Rightarrow> mass_balance h s' \<and> sim_day s' = sim_day s + n"
  using assms(2)
proof (induction n arbitrary: s)
  case 0
  then show ?case by simp
next
  case (Suc n)
  show ?case
  proof (cases "engine_step costs hs h prices policy s")
    case (Inl e)
    have "\<not> amounts_within policy"
    proof
      assume "amounts_within policy"
      with engine_step_total[OF assms(1) _ this, of s costs hs prices] Suc.prems Inl
      show False by (auto simp: mass_balance_def)
    qed
    with Inl show ?thesis by simp
  next
    case (Inr s1)
    from engine_step_balance[OF assms(1) Suc.prems Inr]
    have b: "mass_balance h s1" and d: "sim_day s1 = Suc (sim_day s)" by auto
    from Suc.IH[OF b] d Inr show ?thesis by (auto split: sum.splits)
  qed
qed

text \<open>
  Claim C1. For a harvest schedule without negative increments, any policy and any number
  of simulated days: a run that gets through them ends on that day with the cumulative
  harvest inflow equal to the cumulative sales plus the inventory held, and with an
  inventory that is not negative; a run halts (by the engine's invariant check) only on
  a policy that asks for a negative sale or for more than the inventory. In each step the
  inventory changes by the day's inflow minus the amount sold, which is not negative and
  is 0 unless the day's decision (the policy's or the forced liquidation) is a SELL.
\<close>

theorem mass_balance_invariant:
  assumes "\<forall>d. 0 \<le> harvest_schedule d"
  shows "(case run_days costs harvest_start harvest_schedule prices policy n (initial_state ps) of
            Inl e \<Rightarrow> \<not> amounts_within policy
          | Inr s \<Rightarrow>
              sim_day s = n
            \<and> cumulative_harvest harvest_schedule n = cumulative_sales s + sim_inventory s
            \<and> 0 \<le> sim_inventory s)
       \<and> (case engine_step costs harvest_start harvest_schedule prices policy s0 of
            Inl e \<Rightarrow> True
          | Inr s1 \<Rightarrow>
              0 \<le> log_amount (last (trade_log s1))
            \<and> sim_inventory s1
                = sim_inventory s0 + harvest_schedule (sim_day s0)
                  - log_amount (last (trade_log s1))
            \<and> (log_action (last (trade_log s1)) = SELL
                 \<or> log_amount (last (trade_log s1)) = 0))"
proof -
  have init: "mass_balance harvest_schedule (initial_state ps)"
    by (simp add: mass_balance_def initial_state_def cumulative_harvest_def
          cumulative_sales_def)
  from run_days_balance [OF assms init, where costs = costs and hs = harvest_start
      and prices = prices and policy = policy and n = n]
  have 1: "case run_days costs harvest_start harvest_schedule prices policy n (initial_state ps) of
            Inl e \<Rightarrow> \<not> amounts_within policy
          | Inr s \<Rightarrow>
              sim_day s = n
            \<and> cumulative_harvest harvest_schedule n = cumulative_sales s + sim_inventory s
            \<and> 0 \<le> sim_inventory s"
    by (auto simp: mass_balance_def initial_state_def split: sum.splits)
  have 2: "case engine_step costs harvest_start harvest_schedule prices policy s0 of
            Inl e \<Rightarrow> True
          | Inr s1 \<Rightarrow>
              0 \<le> log_amount (last (trade_log s1))
            \<and> sim_inventory s1
                = sim_inventory s0 + harvest_schedule (sim_day s0)
                  - log_amount (last (trade_log s1))
            \<and> (log_action (last (trade_log s1)) = SELL
                 \<or> log_amount (last (trade_log s1)) = 0)"
    by (auto simp: engine_step_def Let_def split: sum.splits prod.splits if_splits)
  from 1 2 show ?thesis by simp
qed

theorem mass_balance_invariant_witness:
  "(\<forall>d. (0::real) \<le> (\<lambda>d. 3) d)
   \<and> (case run_days \<lparr>storage_cost_rate_per_day = 0.00005, transaction_cost_rate = 0.0001\<rparr>
             0 (\<lambda>d. 3) (\<lambda>d. 100)
             (\<lambda>ps day inventory current_price.
                ImmediateSaleStrategy_decide immediate_defaults ps (int day) inventory
                  current_price short_history)
             2 (initial_state \<lparr>days_since_last_sale = 7\<rparr>) of
        Inl e \<Rightarrow> False
      | Inr s \<Rightarrow> sim_day s = 2 \<and> cumulative_sales s = 6 \<and> sim_inventory s = 0)"
proof -
  have h: "\<forall>d. (0::real) \<le> (\<lambda>d. 3) d" by simp
  have run: "run_days \<lparr>storage_cost_rate_per_day = 0.00005, transaction_cost_rate = 0.0001\<rparr>
             0 (\<lambda>d. 3) (\<lambda>d. 100)
             (\<lambda>ps day inventory current_price.
                ImmediateSaleStrategy_decide immediate_defaults ps (int day) inventory
                  current_price short_history)
             2 (initial_state \<lparr>days_since_last_sale = 7\<rparr>)
        = Inr \<lparr>sim_day = 2, sim_inventory = 0,
                policy_state = \<lparr>days_since_last_sale = 0\<rparr>,
                trade_log =
                  [\<lparr>log_day = 0, log_action = HOLD, log_amount = 0,
                     log_reason = (''accumulating_need_{}t'', [Fin 5]), log_inventory = 3\<rparr>,
                   \<lparr>log_day = 1, log_action = SELL, log_amount = 6,
                     log_reason = (''immediate_weekly_sale_{}t'', [Fin 6]),
                     log_inventory = 0\<rparr>],
                total_storage_cost = 9 / 10, total_transaction_cost = 6 / 5\<rparr>"
    by (simp add: numeral_2_eq_2 engine_step_def initial_state_def Let_def
          engine_force_liquidation_check_def ImmediateSaleStrategy_decide_def
          force_liquidation_check_def immediate_defaults_def mk_decision_def
          storage_cost_def transaction_cost_def)
  from mass_balance_invariant [OF h, where costs =
      "\<lparr>storage_cost_rate_per_day = 0.00005, transaction_cost_rate = 0.0001\<rparr>"
      and harvest_start = 0 and prices = "\<lambda>d. 100"
      and policy = "\<lambda>ps day inventory current_price.
                ImmediateSaleStrategy_decide immediate_defaults ps (int day) inventory
                  current_price short_history"
      and n = 2 and ps = "\<lparr>days_since_last_sale = 7\<rparr>"
      and ?s0.0 = "initial_state \<lparr>days_since_last_sale = 7\<rparr>"]
  show ?thesis
    unfolding run by (simp add: cumulative_harvest_def cumulative_sales_def numeral_2_eq_2)
qed

end
